theory Spec2Isabelle
  imports Main "HOL-Library.Word"
begin

section \<open>Device-mapper snapshotter configuration (snapshots/devmapper/config.go)\<close>

text \<open>
  The file loads a TOML document into a \<open>Config\<close> struct, converts the human-readable
  base image size into a byte count and checks that the required fields are present.
  Every Go \<open>error\<close> value is a value of one datatype; a function returning
  \<open>(*Config, error)\<close> returns \<open>go_error + Config\<close>, one returning only \<open>error\<close>
  returns \<open>go_error option\<close> (\<open>None\<close> is \<open>nil\<close>).
\<close>

subsection \<open>Errors\<close>

datatype errno = ENOENT | EACCES | ENOTDIR | EIO | ELOOP | ENAMETOOLONG

datatype go_error =
    ErrNotExist \<comment> \<open>the sentinel \<open>os.ErrNotExist\<close>\<close>
  | Errno errno \<comment> \<open>a \<open>syscall.Errno\<close>\<close>
  | PathError string string go_error \<comment> \<open>\<open>*os.PathError{Op, Path, Err}\<close>\<close>
  | TomlError string \<comment> \<open>an error of the TOML library\<close>
  | UnitsError string \<comment> \<open>an error of the size parser\<close>
  | Errorf string \<comment> \<open>\<open>fmt.Errorf(msg)\<close>\<close>
  | Wrap go_error string \<comment> \<open>\<open>errors.Wrap(err, msg)\<close> and \<open>errors.Wrapf\<close>\<close>
  | MultiError "go_error list" \<comment> \<open>\<open>*multierror.Error{Errors}\<close>\<close>

text \<open>
  \<open>os.IsNotExist\<close> looks at the error below a \<open>*PathError\<close> and accepts the sentinel
  and the errno \<open>ENOENT\<close>.
\<close>

fun underlyingError :: "go_error \<Rightarrow> go_error" where
  "underlyingError (PathError op' p e) = e"
| "underlyingError e = e"

definition IsNotExist :: "go_error \<Rightarrow> bool" where
  "IsNotExist err =
     (let e = underlyingError err in e = ErrNotExist \<or> e = Errno ENOENT)"

text \<open>
  \<open>multierror.Append(result, err)\<close> on a possibly nil \<open>*multierror.Error\<close>: a nil
  accumulator becomes a fresh one, an appended multi-error is flattened, anything else
  is added at the end. \<open>ErrorOrNil\<close> is nil for a nil or empty accumulator.
\<close>

fun Append :: "go_error list option \<Rightarrow> go_error \<Rightarrow> go_error list option" where
  "Append result (MultiError es) = Some ((case result of None \<Rightarrow> [] | Some rs \<Rightarrow> rs) @ es)"
| "Append result e = Some ((case result of None \<Rightarrow> [] | Some rs \<Rightarrow> rs) @ [e])"

fun ErrorOrNil :: "go_error list option \<Rightarrow> go_error option" where
  "ErrorOrNil None = None"
| "ErrorOrNil (Some es) = (if es = [] then None else Some (MultiError es))"

subsection \<open>The configuration record\<close>

text \<open>
  Both 64-bit integer types are 64-bit words: an \<open>int64\<close> is read with \<open>sint\<close>, a
  \<open>uint64\<close> with \<open>uint\<close>. The conversion \<open>uint64(x)\<close> of an \<open>int64\<close> keeps the
  value modulo \<open>2 ^ 64\<close>.
\<close>

type_synonym uint64 = "64 word"
type_synonym int64 = "64 word"

definition uint64_of_int64 :: "int64 \<Rightarrow> uint64" where
  "uint64_of_int64 x = word_of_int (sint x)"

record Config =
  RootPath :: string
  PoolName :: string
  BaseImageSize :: string
  BaseImageSizeBytes :: uint64
  AsyncRemove :: bool
  DiscardBlocks :: bool

text \<open>The zero value \<open>Config{}\<close>.\<close>

definition Config_zero :: Config where
  "Config_zero = \<lparr>RootPath = [], PoolName = [], BaseImageSize = [],
     BaseImageSizeBytes = 0, AsyncRemove = False, DiscardBlocks = False\<rparr>"

subsection \<open>Validate\<close>

definition Validate :: "Config \<Rightarrow> go_error option" where
  "Validate c =
     (let result = None;
          result = (if PoolName c = [] then Append result (Errorf ''pool_name is required'')
                    else result);
          result = (if RootPath c = [] then Append result (Errorf ''root_path is required'')
                    else result);
          result = (if BaseImageSize c = []
                    then Append result (Errorf ''base_image_size is required'')
                    else result)
      in ErrorOrNil result)"

subsection \<open>The TOML document\<close>

text \<open>
  A parsed document (\<open>*toml.Tree\<close>): its top-level keys with their values. A float and
  a date are kept as the text that wrote them.
\<close>

datatype toml_value =
    TString string
  | TInteger int
  | TFloat string
  | TBool bool
  | TDatetime string
  | TArray "toml_value list"
  | TTable "(string \<times> toml_value) list"

type_synonym toml_tree = "string \<rightharpoonup> toml_value"

text \<open>
  Modelled from the spec: \<open>Tree.Unmarshal\<close> of the TOML library, which is not in the
  source. The document is mapped field by field onto the record under the keys of the
  struct tags (\<open>root_path\<close>, \<open>pool_name\<close>, \<open>base_image_size\<close>, \<open>async_remove\<close>,
  \<open>discard_blocks\<close>; \<open>BaseImageSizeBytes\<close> is tagged \<open>-\<close> and never read). A key that
  is absent leaves the field as it was, a value that is not of the field's type is an
  error, every other key is ignored.
\<close>

definition unmarshalString :: "toml_tree \<Rightarrow> string \<Rightarrow> string \<Rightarrow> go_error + string" where
  "unmarshalString tree key old =
     (case tree key of
        None \<Rightarrow> Inr old
      | Some (TString s) \<Rightarrow> Inr s
      | Some _ \<Rightarrow> Inl (TomlError (''cannot convert value to string: '' @ key)))"

definition unmarshalBool :: "toml_tree \<Rightarrow> string \<Rightarrow> bool \<Rightarrow> go_error + bool" where
  "unmarshalBool tree key old =
     (case tree key of
        None \<Rightarrow> Inr old
      | Some (TBool b) \<Rightarrow> Inr b
      | Some _ \<Rightarrow> Inl (TomlError (''cannot convert value to bool: '' @ key)))"

definition Unmarshal :: "toml_tree \<Rightarrow> Config \<Rightarrow> go_error + Config" where
  "Unmarshal tree c =
     (case unmarshalString tree ''root_path'' (RootPath c) of
        Inl err \<Rightarrow> Inl err
      | Inr rp \<Rightarrow>
     (case unmarshalString tree ''pool_name'' (PoolName c) of
        Inl err \<Rightarrow> Inl err
      | Inr pn \<Rightarrow>
     (case unmarshalString tree ''base_image_size'' (BaseImageSize c) of
        Inl err \<Rightarrow> Inl err
      | Inr bis \<Rightarrow>
     (case unmarshalBool tree ''async_remove'' (AsyncRemove c) of
        Inl err \<Rightarrow> Inl err
      | Inr ar \<Rightarrow>
     (case unmarshalBool tree ''discard_blocks'' (DiscardBlocks c) of
        Inl err \<Rightarrow> Inl err
      | Inr db \<Rightarrow>
          Inr (c\<lparr>RootPath := rp, PoolName := pn, BaseImageSize := bis,
                 AsyncRemove := ar, DiscardBlocks := db\<rparr>))))))"

subsection \<open>The size parser\<close>

text \<open>
  Modelled from the spec: \<open>units.RAMInBytes\<close> of the units library, which is not in the
  source. A size is a non-empty run of decimal digits, alone (bytes) or followed by a
  unit: one of K, M, G, T for the powers of 1000, the same letter followed by an i for
  the powers of 1024, either one optionally followed by a B, letters in any case. The
  result is the number of bytes converted to an \<open>int64\<close>: no size is refused for being
  large, and one of \<open>2 ^ 63\<close> bytes or more keeps its low 64 bits.
\<close>

definition isDigit :: "char \<Rightarrow> bool" where
  "isDigit c = (c \<in> set ''0123456789'')"

definition digitVal :: "char \<Rightarrow> nat" where
  "digitVal c = of_char c - 48"

definition decimal :: "string \<Rightarrow> nat" where
  "decimal ds = foldl (\<lambda>n c. 10 * n + digitVal c) 0 ds"

definition toLower :: "char \<Rightarrow> char" where
  "toLower c =
     (case map_of (zip ''ABCDEFGHIJKLMNOPQRSTUVWXYZ'' ''abcdefghijklmnopqrstuvwxyz'') c of
        None \<Rightarrow> c
      | Some l \<Rightarrow> l)"

definition unitExponent :: "char \<Rightarrow> nat option" where
  "unitExponent p =
     (if p = CHR ''k'' then Some 1 else if p = CHR ''m'' then Some 2
      else if p = CHR ''g'' then Some 3 else if p = CHR ''t'' then Some 4 else None)"

fun unitMultiplier :: "string \<Rightarrow> nat option" where
  "unitMultiplier [] = Some 1"
| "unitMultiplier (p # rest) =
     (case unitExponent p of
        None \<Rightarrow> None
      | Some e \<Rightarrow>
          if rest = [] \<or> rest = ''b'' then Some (1000 ^ e)
          else if rest = ''i'' \<or> rest = ''ib'' then Some (1024 ^ e)
          else None)"

definition units_RAMInBytes :: "string \<Rightarrow> go_error + int64" where
  "units_RAMInBytes sizeStr =
     (let ds = takeWhile isDigit sizeStr;
          unit = map toLower (dropWhile isDigit sizeStr)
      in if ds = [] then Inl (UnitsError (''invalid size: '' @ sizeStr))
         else (case unitMultiplier unit of
                 None \<Rightarrow> Inl (UnitsError (''invalid size: '' @ sizeStr))
               | Some mul \<Rightarrow> Inr (word_of_nat (decimal ds * mul))))"

subsection \<open>The environment\<close>

text \<open>
  What the loader asks of the outside: \<open>os.Stat\<close> on a path (only its error is looked
  at), \<open>toml.LoadFile\<close> on a path, and the size parser \<open>units.RAMInBytes\<close>.
\<close>

record env =
  Stat :: "string \<Rightarrow> go_error option"
  LoadFile :: "string \<Rightarrow> go_error + toml_tree"
  RAMInBytes :: "string \<Rightarrow> go_error + int64"

subsection \<open>parse and LoadConfig\<close>

definition parse :: "env \<Rightarrow> Config \<Rightarrow> go_error + Config" where
  "parse E c =
     (case RAMInBytes E (BaseImageSize c) of
        Inl err \<Rightarrow>
          Inl (Wrap err (''failed to parse base image size: '' @ [CHR 0x27] @
                          BaseImageSize c @ [CHR 0x27]))
      | Inr baseImageSize \<Rightarrow> Inr (c\<lparr>BaseImageSizeBytes := uint64_of_int64 baseImageSize\<rparr>))"

definition LoadConfig :: "env \<Rightarrow> string \<Rightarrow> go_error + Config" where
  "LoadConfig E path =
     (case Stat E path of
        Some err \<Rightarrow> if IsNotExist err then Inl ErrNotExist else Inl err
      | None \<Rightarrow>
     (case LoadFile E path of
        Inl err \<Rightarrow> Inl (Wrap err (''failed to open devmapepr TOML: '' @ path))
      | Inr file \<Rightarrow>
     (case Unmarshal file Config_zero of
        Inl err \<Rightarrow> Inl (Wrap err ''failed to unmarshal devmapper TOML'')
      | Inr config \<Rightarrow>
     (case parse E config of
        Inl err \<Rightarrow> Inl err
      | Inr config \<Rightarrow>
     (case Validate config of
        Some err \<Rightarrow> Inl err
      | None \<Rightarrow> Inr config)))))"

text \<open>The unit letters, each with the power it stands for.\<close>

definition unitLetters :: "(char \<times> nat) list" where
  "unitLetters = [(CHR ''k'', 1), (CHR ''K'', 1), (CHR ''m'', 2), (CHR ''M'', 2),
     (CHR ''g'', 3), (CHR ''G'', 3), (CHR ''t'', 4), (CHR ''T'', 4)]"

text \<open>The keys of the struct tags: the only keys the loader looks up.\<close>

definition knownKeys :: "string set" where
  "knownKeys = {''root_path'', ''pool_name'', ''base_image_size'', ''async_remove'',
     ''discard_blocks''}"

subsection \<open>A sample installation\<close>

text \<open>
  One configuration file that is present and valid, one whose base image size is the
  empty string, one path that cannot be probed, and nothing anywhere else; sizes are
  parsed by the model of the units library.
\<close>

definition sampleDoc :: toml_tree where
  "sampleDoc =
     [''root_path'' \<mapsto> TString ''/var/lib/containerd/devmapper'',
      ''pool_name'' \<mapsto> TString ''containerd-pool'',
      ''base_image_size'' \<mapsto> TString ''32GiB'',
      ''discard_blocks'' \<mapsto> TBool True,
      ''comment'' \<mapsto> TInteger 7]"

definition emptySizeDoc :: toml_tree where
  "emptySizeDoc =
     [''root_path'' \<mapsto> TString ''/var/lib/containerd/devmapper'',
      ''base_image_size'' \<mapsto> TString []]"

definition sampleEnv :: env where
  "sampleEnv =
     \<lparr>Stat = (\<lambda>p. if p = ''/etc/devmapper.toml'' \<or> p = ''/etc/empty-size.toml'' then None
                 else if p = ''/root/devmapper.toml''
                 then Some (PathError ''stat'' p (Errno EACCES))
                 else Some (PathError ''stat'' p (Errno ENOENT))),
      LoadFile = (\<lambda>p. if p = ''/etc/devmapper.toml'' then Inr sampleDoc
                     else if p = ''/etc/empty-size.toml'' then Inr emptySizeDoc
                     else Inl (PathError ''open'' p (Errno ENOENT))),
      RAMInBytes = units_RAMInBytes\<rparr>"

section \<open>Properties\<close>

subsection \<open>Validate\<close>

text \<open>
  C3. For every record, \<open>Validate\<close> succeeds exactly when the pool name, the root path
  and the base image size are all non-empty; a failure is one aggregated error whose
  entries are pairwise different, as many as there are empty required fields, and hold
  the message of a field (\<open>pool_name is required\<close>, \<open>root_path is required\<close>,
  \<open>base_image_size is required\<close>) exactly when that field is empty.
\<close>

theorem Validate_one_message_per_missing_field:
  "(Validate c = None \<longleftrightarrow> PoolName c \<noteq> [] \<and> RootPath c \<noteq> [] \<and> BaseImageSize c \<noteq> []) \<and>
   (\<forall>e. Validate c = Some e \<longrightarrow>
      (\<exists>es. e = MultiError es \<and> distinct es \<and>
         length es = length (filter (\<lambda>v. v = []) [PoolName c, RootPath c, BaseImageSize c]) \<and>
         set es \<subseteq> {Errorf ''pool_name is required'', Errorf ''root_path is required'',
                    Errorf ''base_image_size is required''} \<and>
         (Errorf ''pool_name is required'' \<in> set es \<longleftrightarrow> PoolName c = []) \<and>
         (Errorf ''root_path is required'' \<in> set es \<longleftrightarrow> RootPath c = []) \<and>
         (Errorf ''base_image_size is required'' \<in> set es \<longleftrightarrow> BaseImageSize c = [])))"
  by (simp add: Validate_def)

theorem Validate_one_message_per_missing_field_witness:
  "Validate (Config_zero\<lparr>RootPath := ''/var/lib/dm''\<rparr>) =
     Some (MultiError [Errorf ''pool_name is required'', Errorf ''base_image_size is required''])"
  using Validate_one_message_per_missing_field [of "Config_zero\<lparr>RootPath := ''/var/lib/dm''\<rparr>"]
  by (simp add: Validate_def Config_zero_def)

text \<open>
  C10. \<open>Validate\<close> looks only at the three required strings: when they are non-empty
  it succeeds, whatever the base image size string says (also one that is no size at
  all, as \<open>abc\<close>) and whatever the derived byte count holds.
\<close>

theorem Validate_checks_only_nonempty:
  "PoolName c \<noteq> [] \<Longrightarrow> RootPath c \<noteq> [] \<Longrightarrow> BaseImageSize c \<noteq> [] \<Longrightarrow>
     Validate c = None \<and> Validate (c\<lparr>BaseImageSizeBytes := n\<rparr>) = None \<and>
     Validate (c\<lparr>BaseImageSize := ''abc'', BaseImageSizeBytes := n\<rparr>) = None"
  by (simp add: Validate_def)

theorem Validate_checks_only_nonempty_witness:
  "Validate \<lparr>RootPath = ''/r'', PoolName = ''p'', BaseImageSize = ''abc'',
      BaseImageSizeBytes = 12345, AsyncRemove = False, DiscardBlocks = True\<rparr> = None"
  using Validate_checks_only_nonempty
    [of "\<lparr>RootPath = ''/r'', PoolName = ''p'', BaseImageSize = ''abc'',
      BaseImageSizeBytes = 0, AsyncRemove = False, DiscardBlocks = True\<rparr>" 12345]
  by simp

subsection \<open>The existence probe\<close>

lemma Validate_not_sentinel: "Validate c \<noteq> Some ErrNotExist"
  by (simp add: Validate_def)

lemma parse_not_sentinel: "parse E c \<noteq> Inl ErrNotExist"
  by (simp add: parse_def split: sum.split)

lemma IsNotExist_sentinel: "IsNotExist ErrNotExist"
  by (simp add: IsNotExist_def)

lemma LoadConfig_after_Stat:
  "Stat E path = None \<Longrightarrow> LoadConfig E path \<noteq> Inl ErrNotExist"
  using Validate_not_sentinel parse_not_sentinel
  by (fastforce simp: LoadConfig_def split: sum.splits option.splits)

text \<open>
  C4. When the probe of a path reports that nothing exists there, \<open>LoadConfig\<close> fails
  with the sentinel \<open>os.ErrNotExist\<close>: never with a wrapped error (what the steps that
  open, unmarshal and parse return) and never with the aggregated error of \<open>Validate\<close>.
  The sentinel tells this failure from every other: for any environment and path,
  \<open>LoadConfig\<close> returns it exactly when the probe reports non-existence.
\<close>

theorem LoadConfig_not_found:
  "Stat E path = Some err \<Longrightarrow> IsNotExist err \<Longrightarrow>
     LoadConfig E path = Inl ErrNotExist \<and>
     (\<forall>e msg. LoadConfig E path \<noteq> Inl (Wrap e msg)) \<and>
     (\<forall>es. LoadConfig E path \<noteq> Inl (MultiError es)) \<and>
     (\<forall>E' path'. LoadConfig E' path' = Inl ErrNotExist \<longleftrightarrow>
        (\<exists>err'. Stat E' path' = Some err' \<and> IsNotExist err'))"
proof -
  assume s: "Stat E path = Some err" and n: "IsNotExist err"
  have a: "LoadConfig E path = Inl ErrNotExist"
    using s n by (simp add: LoadConfig_def)
  have b: "LoadConfig E' path' = Inl ErrNotExist \<longleftrightarrow>
        (\<exists>err'. Stat E' path' = Some err' \<and> IsNotExist err')" for E' path'
  proof (cases "Stat E' path'")
    case None
    then show ?thesis using LoadConfig_after_Stat [of E' path'] by simp
  next
    case (Some err')
    then show ?thesis using IsNotExist_sentinel by (auto simp: LoadConfig_def)
  qed
  from a have c: "\<forall>e msg. LoadConfig E path \<noteq> Inl (Wrap e msg)"
    and d: "\<forall>es. LoadConfig E path \<noteq> Inl (MultiError es)"
    by simp_all
  from a b c d show ?thesis by blast
qed

theorem LoadConfig_not_found_witness:
  "Stat sampleEnv ''/nowhere.toml'' = Some (PathError ''stat'' ''/nowhere.toml'' (Errno ENOENT)) \<and>
   IsNotExist (PathError ''stat'' ''/nowhere.toml'' (Errno ENOENT)) \<and>
   LoadConfig sampleEnv ''/nowhere.toml'' = Inl ErrNotExist"
proof -
  have s: "Stat sampleEnv ''/nowhere.toml'' =
      Some (PathError ''stat'' ''/nowhere.toml'' (Errno ENOENT))"
    by (simp add: sampleEnv_def)
  have n: "IsNotExist (PathError ''stat'' ''/nowhere.toml'' (Errno ENOENT))"
    by (simp add: IsNotExist_def)
  from LoadConfig_not_found [OF s n] s n show ?thesis by blast
qed

text \<open>
  C7. When the probe of a path fails with an error that does not mean non-existence,
  \<open>LoadConfig\<close> returns that very error, neither wrapped nor replaced.
\<close>

theorem LoadConfig_stat_error_verbatim:
  "Stat E path = Some err \<Longrightarrow> \<not> IsNotExist err \<Longrightarrow> LoadConfig E path = Inl err"
  by (simp add: LoadConfig_def)

theorem LoadConfig_stat_error_verbatim_witness:
  "Stat sampleEnv ''/root/devmapper.toml'' =
     Some (PathError ''stat'' ''/root/devmapper.toml'' (Errno EACCES)) \<and>
   \<not> IsNotExist (PathError ''stat'' ''/root/devmapper.toml'' (Errno EACCES)) \<and>
   LoadConfig sampleEnv ''/root/devmapper.toml'' =
     Inl (PathError ''stat'' ''/root/devmapper.toml'' (Errno EACCES))"
proof -
  have s: "Stat sampleEnv ''/root/devmapper.toml'' =
      Some (PathError ''stat'' ''/root/devmapper.toml'' (Errno EACCES))"
    by (simp add: sampleEnv_def)
  have n: "\<not> IsNotExist (PathError ''stat'' ''/root/devmapper.toml'' (Errno EACCES))"
    by (simp add: IsNotExist_def)
  from LoadConfig_stat_error_verbatim [OF s n] s n show ?thesis by blast
qed

subsection \<open>Loading a document\<close>

lemma uint64_of_int64_nonneg: "0 \<le> sint n \<Longrightarrow> uint (uint64_of_int64 n) = sint n"
proof -
  assume nonneg: "0 \<le> sint n"
  have "sint n < 2 ^ 63" using sint_lt [of n] by simp
  then have less: "sint n < 2 ^ 64" by simp
  have "uint n = take_bit 64 (sint n)" using uint_sint [of n] by simp
  also have "\<dots> = sint n" using nonneg less by (rule take_bit_int_eq_self)
  finally show ?thesis by (simp add: uint64_of_int64_def)
qed

lemma unmarshalString_agree:
  "doc k = doc' k \<Longrightarrow> unmarshalString doc k old = unmarshalString doc' k old"
  by (simp add: unmarshalString_def)

lemma unmarshalBool_agree:
  "doc k = doc' k \<Longrightarrow> unmarshalBool doc k old = unmarshalBool doc' k old"
  by (simp add: unmarshalBool_def)

lemma Unmarshal_agree:
  assumes "\<forall>k\<in>knownKeys. doc k = doc' k"
  shows "Unmarshal doc c = Unmarshal doc' c"
proof -
  have s: "unmarshalString doc ''root_path'' = unmarshalString doc' ''root_path''"
    "unmarshalString doc ''pool_name'' = unmarshalString doc' ''pool_name''"
    "unmarshalString doc ''base_image_size'' = unmarshalString doc' ''base_image_size''"
    using assms by (auto simp: knownKeys_def intro: unmarshalString_agree)
  have b: "unmarshalBool doc ''async_remove'' = unmarshalBool doc' ''async_remove''"
    "unmarshalBool doc ''discard_blocks'' = unmarshalBool doc' ''discard_blocks''"
    using assms by (auto simp: knownKeys_def intro: unmarshalBool_agree)
  show ?thesis unfolding Unmarshal_def by (simp only: s b)
qed

lemma parse_LoadFile_update: "parse (E\<lparr>LoadFile := f\<rparr>) c = parse E c"
  by (simp add: parse_def)

lemma LoadConfig_agree:
  assumes "\<forall>k\<in>knownKeys. doc k = doc' k"
  shows "LoadConfig (E\<lparr>LoadFile := (LoadFile E)(path := Inr doc)\<rparr>) path =
         LoadConfig (E\<lparr>LoadFile := (LoadFile E)(path := Inr doc')\<rparr>) path"
  using Unmarshal_agree [OF assms, of Config_zero]
  by (simp add: LoadConfig_def parse_LoadFile_update split: option.split sum.split)

lemmas units_eval = units_RAMInBytes_def isDigit_def decimal_def digitVal_def toLower_def
  unitExponent_def

lemma sample_size: "RAMInBytes sampleEnv ''32GiB'' = Inr 34359738368"
  by (simp add: sampleEnv_def units_eval)

lemma sample_load:
  "LoadConfig sampleEnv ''/etc/devmapper.toml'' =
     Inr \<lparr>RootPath = ''/var/lib/containerd/devmapper'', PoolName = ''containerd-pool'',
          BaseImageSize = ''32GiB'', BaseImageSizeBytes = 34359738368,
          AsyncRemove = False, DiscardBlocks = True\<rparr>"
proof -
  have u: "Unmarshal sampleDoc Config_zero =
      Inr \<lparr>RootPath = ''/var/lib/containerd/devmapper'', PoolName = ''containerd-pool'',
          BaseImageSize = ''32GiB'', BaseImageSizeBytes = 0,
          AsyncRemove = False, DiscardBlocks = True\<rparr>"
    by (simp add: Unmarshal_def unmarshalString_def unmarshalBool_def sampleDoc_def
        Config_zero_def)
  have st: "Stat sampleEnv ''/etc/devmapper.toml'' = None"
    and lf: "LoadFile sampleEnv ''/etc/devmapper.toml'' = Inr sampleDoc"
    by (simp_all add: sampleEnv_def)
  have pr: "parse sampleEnv \<lparr>RootPath = ''/var/lib/containerd/devmapper'',
          PoolName = ''containerd-pool'', BaseImageSize = ''32GiB'', BaseImageSizeBytes = 0,
          AsyncRemove = False, DiscardBlocks = True\<rparr> =
      Inr \<lparr>RootPath = ''/var/lib/containerd/devmapper'', PoolName = ''containerd-pool'',
          BaseImageSize = ''32GiB'', BaseImageSizeBytes = 34359738368,
          AsyncRemove = False, DiscardBlocks = True\<rparr>"
    using sample_size by (simp add: parse_def uint64_of_int64_def)
  have v: "Validate \<lparr>RootPath = ''/var/lib/containerd/devmapper'',
          PoolName = ''containerd-pool'', BaseImageSize = ''32GiB'',
          BaseImageSizeBytes = 34359738368, AsyncRemove = False, DiscardBlocks = True\<rparr> = None"
    by (simp add: Validate_def)
  show ?thesis by (simp add: LoadConfig_def st lf u pr v)
qed

text \<open>
  C1. A file that is there and parses to a document in which \<open>root_path\<close>, \<open>pool_name\<close>
  and \<open>base_image_size\<close> are non-empty strings, the two flags are absent or booleans,
  and the size string is one the size parser accepts with result \<open>n\<close>: \<open>LoadConfig\<close>
  succeeds, the record holds the three strings and the flags of the document, and its
  \<open>BaseImageSizeBytes\<close> is the conversion \<open>uint64(n)\<close> of what the parser returned for
  that string, the same number whenever \<open>n\<close> is not negative.
\<close>

theorem LoadConfig_valid_document:
  assumes "Stat E path = None" and "LoadFile E path = Inr doc"
    and "doc ''root_path'' = Some (TString rp)" and "rp \<noteq> []"
    and "doc ''pool_name'' = Some (TString pn)" and "pn \<noteq> []"
    and "doc ''base_image_size'' = Some (TString bis)" and "bis \<noteq> []"
    and "doc ''async_remove'' = None \<or> (\<exists>b. doc ''async_remove'' = Some (TBool b))"
    and "doc ''discard_blocks'' = None \<or> (\<exists>b. doc ''discard_blocks'' = Some (TBool b))"
    and "RAMInBytes E bis = Inr n"
  shows "LoadConfig E path =
      Inr \<lparr>RootPath = rp, PoolName = pn, BaseImageSize = bis,
           BaseImageSizeBytes = uint64_of_int64 n,
           AsyncRemove = (doc ''async_remove'' = Some (TBool True)),
           DiscardBlocks = (doc ''discard_blocks'' = Some (TBool True))\<rparr> \<and>
     (0 \<le> sint n \<longrightarrow> uint (uint64_of_int64 n) = sint n)"
proof -
  have u: "Unmarshal doc Config_zero =
      Inr \<lparr>RootPath = rp, PoolName = pn, BaseImageSize = bis,
           BaseImageSizeBytes = 0,
           AsyncRemove = (doc ''async_remove'' = Some (TBool True)),
           DiscardBlocks = (doc ''discard_blocks'' = Some (TBool True))\<rparr>"
    using assms(3,5,7,9,10)
    by (auto simp: Unmarshal_def unmarshalString_def unmarshalBool_def Config_zero_def)
  show ?thesis
    using assms(1,2,4,6,8,11) u uint64_of_int64_nonneg [of n]
    by (simp add: LoadConfig_def parse_def Validate_def)
qed

theorem LoadConfig_valid_document_witness:
  "LoadConfig sampleEnv ''/etc/devmapper.toml'' =
     Inr \<lparr>RootPath = ''/var/lib/containerd/devmapper'', PoolName = ''containerd-pool'',
          BaseImageSize = ''32GiB'', BaseImageSizeBytes = 34359738368,
          AsyncRemove = False, DiscardBlocks = True\<rparr>"
proof -
  have "LoadConfig sampleEnv ''/etc/devmapper.toml'' =
      Inr \<lparr>RootPath = ''/var/lib/containerd/devmapper'', PoolName = ''containerd-pool'',
           BaseImageSize = ''32GiB'', BaseImageSizeBytes = uint64_of_int64 34359738368,
           AsyncRemove = (sampleDoc ''async_remove'' = Some (TBool True)),
           DiscardBlocks = (sampleDoc ''discard_blocks'' = Some (TBool True))\<rparr> \<and>
     (0 \<le> sint (34359738368 :: int64) \<longrightarrow>
        uint (uint64_of_int64 34359738368) = sint (34359738368 :: int64))"
  proof (rule LoadConfig_valid_document)
    show "Stat sampleEnv ''/etc/devmapper.toml'' = None" by (simp add: sampleEnv_def)
    show "LoadFile sampleEnv ''/etc/devmapper.toml'' = Inr sampleDoc"
      by (simp add: sampleEnv_def)
    show "sampleDoc ''root_path'' = Some (TString ''/var/lib/containerd/devmapper'')"
      by (simp add: sampleDoc_def)
    show "sampleDoc ''pool_name'' = Some (TString ''containerd-pool'')"
      by (simp add: sampleDoc_def)
    show "sampleDoc ''base_image_size'' = Some (TString ''32GiB'')"
      by (simp add: sampleDoc_def)
    show "sampleDoc ''async_remove'' = None \<or>
        (\<exists>b. sampleDoc ''async_remove'' = Some (TBool b))"
      by (simp add: sampleDoc_def)
    show "sampleDoc ''discard_blocks'' = None \<or>
        (\<exists>b. sampleDoc ''discard_blocks'' = Some (TBool b))"
      by (auto simp: sampleDoc_def)
    show "RAMInBytes sampleEnv ''32GiB'' = Inr 34359738368" by (rule sample_size)
  qed simp_all
  then show ?thesis by (simp add: sampleDoc_def uint64_of_int64_def)
qed

text \<open>
  C8. In every record \<open>LoadConfig\<close> returns, \<open>AsyncRemove\<close> is false when the document
  has no \<open>async_remove\<close> key and is the document's boolean when it has one; the same
  holds of \<open>DiscardBlocks\<close> and \<open>discard_blocks\<close>.
\<close>

theorem LoadConfig_flags:
  assumes "LoadFile E path = Inr doc" and "LoadConfig E path = Inr c"
  shows "(doc ''async_remove'' = None \<longrightarrow> \<not> AsyncRemove c) \<and>
         (\<forall>b. doc ''async_remove'' = Some (TBool b) \<longrightarrow> AsyncRemove c = b) \<and>
         (doc ''discard_blocks'' = None \<longrightarrow> \<not> DiscardBlocks c) \<and>
         (\<forall>b. doc ''discard_blocks'' = Some (TBool b) \<longrightarrow> DiscardBlocks c = b)"
proof -
  from assms obtain c0 where u: "Unmarshal doc Config_zero = Inr c0"
    and p: "parse E c0 = Inr c"
    by (auto simp: LoadConfig_def split: option.splits sum.splits if_splits)
  from p have "AsyncRemove c = AsyncRemove c0" "DiscardBlocks c = DiscardBlocks c0"
    by (auto simp: parse_def split: sum.splits)
  moreover from u have "doc ''async_remove'' = None \<longrightarrow> \<not> AsyncRemove c0"
    "\<forall>b. doc ''async_remove'' = Some (TBool b) \<longrightarrow> AsyncRemove c0 = b"
    "doc ''discard_blocks'' = None \<longrightarrow> \<not> DiscardBlocks c0"
    "\<forall>b. doc ''discard_blocks'' = Some (TBool b) \<longrightarrow> DiscardBlocks c0 = b"
    by (auto simp: Unmarshal_def unmarshalBool_def Config_zero_def split: sum.splits)
  ultimately show ?thesis by simp
qed

theorem LoadConfig_flags_witness:
  "LoadFile sampleEnv ''/etc/devmapper.toml'' = Inr sampleDoc \<and>
   sampleDoc ''async_remove'' = None \<and>
   sampleDoc ''discard_blocks'' = Some (TBool True) \<and>
   (\<exists>c. LoadConfig sampleEnv ''/etc/devmapper.toml'' = Inr c \<and>
        \<not> AsyncRemove c \<and> DiscardBlocks c)"
proof -
  have f: "LoadFile sampleEnv ''/etc/devmapper.toml'' = Inr sampleDoc"
    by (simp add: sampleEnv_def)
  have a: "sampleDoc ''async_remove'' = None"
    and d: "sampleDoc ''discard_blocks'' = Some (TBool True)"
    by (simp_all add: sampleDoc_def)
  from LoadConfig_flags [OF f sample_load] a d f sample_load show ?thesis by simp
qed

text \<open>
  C9. Keys other than the five of the struct tags play no part: unmarshalling a
  document gives what unmarshalling its restriction to those five keys gives, and
  \<open>LoadConfig\<close> on a file holding the document returns what it returns on a file
  holding the restriction, failure or record alike.
\<close>

theorem LoadConfig_ignores_unknown_keys:
  "Unmarshal doc c = Unmarshal (doc |` knownKeys) c \<and>
   LoadConfig (E\<lparr>LoadFile := (LoadFile E)(path := Inr doc)\<rparr>) path =
     LoadConfig (E\<lparr>LoadFile := (LoadFile E)(path := Inr (doc |` knownKeys))\<rparr>) path"
proof -
  have "\<forall>k\<in>knownKeys. doc k = (doc |` knownKeys) k" by simp
  then show ?thesis using Unmarshal_agree LoadConfig_agree by blast
qed

text \<open>
  C5. A document whose \<open>base_image_size\<close> is the empty string, with a size parser that
  refuses the empty string: \<open>parse\<close> runs before \<open>Validate\<close>, so \<open>LoadConfig\<close> fails
  with the wrapped error of the size parser and not with an aggregated error, although
  \<open>Validate\<close> on the unmarshalled record would have reported the missing size.
\<close>

theorem LoadConfig_empty_size:
  assumes "Stat E path = None" and "LoadFile E path = Inr doc"
    and "Unmarshal doc Config_zero = Inr c"
    and "doc ''base_image_size'' = Some (TString [])"
    and "RAMInBytes E [] = Inl err"
  shows "LoadConfig E path =
           Inl (Wrap err (''failed to parse base image size: '' @ [CHR 0x27, CHR 0x27])) \<and>
         (\<forall>es. LoadConfig E path \<noteq> Inl (MultiError es)) \<and>
         (\<exists>es. Validate c = Some (MultiError es) \<and>
               Errorf ''base_image_size is required'' \<in> set es)"
proof -
  from assms(3,4) have e: "BaseImageSize c = []"
    by (auto simp: Unmarshal_def unmarshalString_def split: sum.splits)
  then have v: "\<exists>es. Validate c = Some (MultiError es) \<and>
               Errorf ''base_image_size is required'' \<in> set es"
    by (auto simp: Validate_def Let_def)
  have l: "LoadConfig E path =
           Inl (Wrap err (''failed to parse base image size: '' @ [CHR 0x27, CHR 0x27]))"
    using assms(1,2,3,5) e by (simp add: LoadConfig_def parse_def)
  from l v show ?thesis by simp
qed

theorem LoadConfig_empty_size_witness:
  "LoadConfig sampleEnv ''/etc/empty-size.toml'' =
     Inl (Wrap (UnitsError ''invalid size: '')
            (''failed to parse base image size: '' @ [CHR 0x27, CHR 0x27]))"
proof -
  have "LoadConfig sampleEnv ''/etc/empty-size.toml'' =
           Inl (Wrap (UnitsError ''invalid size: '')
             (''failed to parse base image size: '' @ [CHR 0x27, CHR 0x27])) \<and>
         (\<forall>es. LoadConfig sampleEnv ''/etc/empty-size.toml'' \<noteq> Inl (MultiError es)) \<and>
         (\<exists>es. Validate (Config_zero\<lparr>RootPath := ''/var/lib/containerd/devmapper''\<rparr>) =
                 Some (MultiError es) \<and>
               Errorf ''base_image_size is required'' \<in> set es)"
  proof (rule LoadConfig_empty_size)
    show "Stat sampleEnv ''/etc/empty-size.toml'' = None" by (simp add: sampleEnv_def)
    show "LoadFile sampleEnv ''/etc/empty-size.toml'' = Inr emptySizeDoc"
      by (simp add: sampleEnv_def)
    show "Unmarshal emptySizeDoc Config_zero =
        Inr (Config_zero\<lparr>RootPath := ''/var/lib/containerd/devmapper''\<rparr>)"
      by (simp add: Unmarshal_def unmarshalString_def unmarshalBool_def emptySizeDoc_def
          Config_zero_def)
    show "emptySizeDoc ''base_image_size'' = Some (TString [])"
      by (simp add: emptySizeDoc_def)
    show "RAMInBytes sampleEnv [] = Inl (UnitsError ''invalid size: '')"
      by (simp add: sampleEnv_def units_RAMInBytes_def)
  qed
  then show ?thesis by simp
qed




subsection \<open>The size parser\<close>

lemma sint_word_of_nat_64:
  assumes "v < 2 ^ 63"
  shows "sint (word_of_nat v :: int64) = int v"
proof -
  have "sint (word_of_nat v :: int64) = signed_take_bit 63 (int v)"
    by (simp add: signed_of_nat)
  also have "\<dots> = int v"
    using assms by (intro signed_take_bit_int_eq_self) simp_all
  finally show ?thesis .
qed

lemma digits_then_unit:
  assumes "\<forall>c\<in>set ds. isDigit c" and "u = [] \<or> \<not> isDigit (hd u)"
  shows "takeWhile isDigit (ds @ u) = ds" and "dropWhile isDigit (ds @ u) = u"
proof -
  have t: "takeWhile isDigit u = []" and d: "dropWhile isDigit u = u"
    using assms(2) by (cases u; simp)+
  show "takeWhile isDigit (ds @ u) = ds"
    using assms(1) t by (simp add: takeWhile_append2)
  show "dropWhile isDigit (ds @ u) = u"
    using assms(1) d by (simp add: dropWhile_append2)
qed

lemma units_RAMInBytes_digits_unit:
  assumes "ds \<noteq> []" and "\<forall>c\<in>set ds. isDigit c" and "u = [] \<or> \<not> isDigit (hd u)"
    and "unitMultiplier (map toLower u) = Some mul"
  shows "units_RAMInBytes (ds @ u) = Inr (word_of_nat (decimal ds * mul))"
  using assms(1,4) digits_then_unit [OF assms(2,3)]
  by (simp add: units_RAMInBytes_def)

lemma toLower_letters:
  "toLower (CHR ''k'') = CHR ''k''" "toLower (CHR ''K'') = CHR ''k''"
  "toLower (CHR ''m'') = CHR ''m''" "toLower (CHR ''M'') = CHR ''m''"
  "toLower (CHR ''g'') = CHR ''g''" "toLower (CHR ''G'') = CHR ''g''"
  "toLower (CHR ''t'') = CHR ''t''" "toLower (CHR ''T'') = CHR ''t''"
  "toLower (CHR ''i'') = CHR ''i''" "toLower (CHR ''I'') = CHR ''i''"
  "toLower (CHR ''b'') = CHR ''b''" "toLower (CHR ''B'') = CHR ''b''"
  by (simp_all add: toLower_def)

lemma unitLetters_cases:
  assumes "(p, e) \<in> set unitLetters"
  shows "\<not> isDigit p \<and> unitExponent (toLower p) = Some e"
  using assms by (auto simp: unitLetters_def isDigit_def toLower_letters unitExponent_def)

lemma decimal_unit:
  assumes "(p, e) \<in> set unitLetters" and "b \<in> {[], ''b'', ''B''}"
  shows "\<not> isDigit p" and "unitMultiplier (map toLower (p # b)) = Some (1000 ^ e)"
  using unitLetters_cases [OF assms(1)] assms(2) by (auto simp: toLower_letters)

lemma binary_unit:
  assumes "(p, e) \<in> set unitLetters" and "i \<in> {CHR ''i'', CHR ''I''}" and "b \<in> {[], ''b'', ''B''}"
  shows "unitMultiplier (map toLower (p # i # b)) = Some (1024 ^ e)"
  using unitLetters_cases [OF assms(1)] assms(2,3) by (auto simp: toLower_letters)



lemma units_RAMInBytes_value:
  assumes "ds \<noteq> []" and "\<forall>c\<in>set ds. isDigit c" and "u = [] \<or> \<not> isDigit (hd u)"
    and "unitMultiplier (map toLower u) = Some mul" and "decimal ds * mul < 2 ^ 63"
  shows "\<exists>n. units_RAMInBytes (ds @ u) = Inr n \<and> sint n = int (decimal ds * mul)"
  using units_RAMInBytes_digits_unit [OF assms(1,2,3,4)] sint_word_of_nat_64 [OF assms(5)]
  by blast

lemma all_digits: "set ds \<subseteq> set ''0123456789'' \<Longrightarrow> \<forall>c\<in>set ds. isDigit c"
  unfolding isDigit_def by blast

lemma size_examples:
  "units_RAMInBytes ''0'' = Inr 0" "units_RAMInBytes ''1024'' = Inr 1024"
  "units_RAMInBytes ''1KiB'' = Inr 1024" "units_RAMInBytes ''32GB'' = Inr 32000000000"
  "units_RAMInBytes ''32GiB'' = Inr 34359738368"
  by (simp_all add: units_eval)

lemma plain_size:
  assumes "ds \<noteq> []" and "set ds \<subseteq> set ''0123456789''" and "decimal ds < 2 ^ 63"
  shows "\<exists>n. units_RAMInBytes ds = Inr n \<and> sint n = int (decimal ds)"
  using units_RAMInBytes_value [OF assms(1) all_digits [OF assms(2)], of "[]" 1] assms(3)
  by simp

lemma decimal_size:
  assumes "ds \<noteq> []" and "set ds \<subseteq> set ''0123456789''"
    and "(p, e) \<in> set unitLetters" and "b \<in> {[], ''b'', ''B''}"
    and "decimal ds * 1000 ^ e < 2 ^ 63"
  shows "\<exists>n. units_RAMInBytes (ds @ p # b) = Inr n \<and> sint n = int (decimal ds * 1000 ^ e)"
proof -
  have u: "p # b = [] \<or> \<not> isDigit (hd (p # b))"
    using decimal_unit(1) [OF assms(3,4)] by simp
  show ?thesis
    by (rule units_RAMInBytes_value
        [OF assms(1) all_digits [OF assms(2)] u decimal_unit(2) [OF assms(3,4)] assms(5)])
qed

lemma binary_size:
  assumes "ds \<noteq> []" and "set ds \<subseteq> set ''0123456789''"
    and "(p, e) \<in> set unitLetters" and "i \<in> {CHR ''i'', CHR ''I''}"
    and "b \<in> {[], ''b'', ''B''}" and "decimal ds * 1024 ^ e < 2 ^ 63"
  shows "\<exists>n. units_RAMInBytes (ds @ p # i # b) = Inr n \<and>
    sint n = int (decimal ds * 1024 ^ e)"
proof -
  have u: "p # i # b = [] \<or> \<not> isDigit (hd (p # i # b))"
    using decimal_unit(1) [OF assms(3,5)] by simp
  show ?thesis
    by (rule units_RAMInBytes_value
        [OF assms(1) all_digits [OF assms(2)] u binary_unit [OF assms(3,4,5)] assms(6)])
qed

text \<open>
  The model of the size parser has the rule and the examples of the specification: it
  reads \<open>0\<close> as 0, \<open>1024\<close> as 1024, \<open>1KiB\<close> as 1024, \<open>32GB\<close> as 32,000,000,000 and
  \<open>32GiB\<close> as 34,359,738,368. In general, for a non-empty run of digits whose value
  fits: alone it is that many bytes; followed by K, M, G or T in either case and
  optionally by b or B it is multiplied by 1000 to the power 1, 2, 3 or 4; with an i or
  I after the letter it is multiplied by that power of 1024. This is a statement about
  the model only: the library it stands for is not part of the source.
\<close>

lemma units_RAMInBytes_model_units:
  "units_RAMInBytes ''0'' = Inr 0 \<and>
   units_RAMInBytes ''1024'' = Inr 1024 \<and>
   units_RAMInBytes ''1KiB'' = Inr 1024 \<and>
   units_RAMInBytes ''32GB'' = Inr 32000000000 \<and>
   units_RAMInBytes ''32GiB'' = Inr 34359738368 \<and>
   (\<forall>ds. ds \<noteq> [] \<and> set ds \<subseteq> set ''0123456789'' \<longrightarrow>
      (decimal ds < 2 ^ 63 \<longrightarrow>
         (\<exists>n. units_RAMInBytes ds = Inr n \<and> sint n = int (decimal ds))) \<and>
      (\<forall>p e i b. (p, e) \<in> set unitLetters \<and> i \<in> {CHR ''i'', CHR ''I''} \<and>
           b \<in> {[], ''b'', ''B''} \<longrightarrow>
         (decimal ds * 1000 ^ e < 2 ^ 63 \<longrightarrow>
            (\<exists>n. units_RAMInBytes (ds @ p # b) = Inr n \<and>
                 sint n = int (decimal ds * 1000 ^ e))) \<and>
         (decimal ds * 1024 ^ e < 2 ^ 63 \<longrightarrow>
            (\<exists>n. units_RAMInBytes (ds @ p # i # b) = Inr n \<and>
                 sint n = int (decimal ds * 1024 ^ e)))))"
  by (intro conjI allI impI; (elim conjE)?;
      (rule size_examples plain_size decimal_size binary_size; assumption))


lemma units_RAMInBytes_model_units_instance:
  "(\<exists>n. units_RAMInBytes ''5Mb'' = Inr n \<and> sint n = 5000000) \<and>
   (\<exists>n. units_RAMInBytes ''5MIb'' = Inr n \<and> sint n = 5242880)"
proof -
  have d: "''5'' \<noteq> [] \<and> set ''5'' \<subseteq> set ''0123456789''" by simp
  have v: "decimal ''5'' = 5" by (simp add: decimal_def digitVal_def)
  have m: "(CHR ''M'', 2) \<in> set unitLetters \<and> CHR ''I'' \<in> {CHR ''i'', CHR ''I''} \<and>
      ''b'' \<in> {[], ''b'', ''B''}"
    by (simp add: unitLetters_def)
  note g = units_RAMInBytes_model_units [THEN conjunct2, THEN conjunct2, THEN conjunct2,
      THEN conjunct2, THEN conjunct2, THEN spec, of "''5''"]
  note h = mp [OF g d, THEN conjunct2, THEN spec, THEN spec, THEN spec, THEN spec,
      of "CHR ''M''" 2 "CHR ''I''" "''b''"]
  from mp [OF h m] show ?thesis by (simp add: v)
qed

end
